theory Spec2Isabelle
  imports Main "HOL-Library.List_Lexorder" "HOL-Library.Char_ord"
begin

section \<open>The custom events component panel\<close>

text \<open>
  A shallow embedding of \<^verbatim>\<open>OrchestratorScriptCustomEventsComponentPanel\<close>
  (\<^verbatim>\<open>custom_events_panel.cpp\<close> and its header). The panel is an adapter between
  the editor's tree widget and the orchestration that owns the custom events. Every
  handler is a function from the panel's state to its return value and the new state.
  Calls that leave the panel (notifications, the inspector, the base class, the mutating
  operations of the orchestration) are recorded, in order, in the field \<open>calls\<close>.
\<close>

subsection \<open>Host types\<close>

text \<open>
  A \<^verbatim>\<open>TreeItem\<close>: the label of column 0, the name the item stands for, its icon
  tag, whether column 0 is selectable, and its children. A \<^verbatim>\<open>TreeItem*\<close> is a
  \<open>tree_item option\<close>, \<open>None\<close> being the null pointer.
\<close>

datatype tree_item =
  TreeItem (item_text: string) (item_name: string) (item_icon: string)
    (item_selectable: bool) (item_children: "tree_item list")

record tree =
  tree_root :: tree_item
  tree_selected :: "tree_item option"

text \<open>The keycodes the panel compares with; every other keycode is \<open>KEY_OTHER\<close>.\<close>

datatype key = KEY_F2 | KEY_DELETE | KEY_OTHER nat

text \<open>
  An \<^verbatim>\<open>InputEvent\<close> is a key event (pressed, echo, keycode) or an event of another
  class. A \<^verbatim>\<open>Ref<InputEvent>\<close> is an \<open>input_event option\<close>, \<open>None\<close> being the
  null reference.
\<close>

datatype input_event =
  InputEventKey (is_pressed: bool) (is_echo: bool) (get_keycode: key)
| InputEventOther

text \<open>
  The values stored in a drag payload: a string, or the dictionary made from a
  signal's method information. A \<^verbatim>\<open>Dictionary\<close> is an association list in
  insertion order; \<open>dict_set\<close> is the assignment \<^verbatim>\<open>data[k] = v\<close>.
\<close>

datatype 'd variant = VString string | VDictionary 'd

type_synonym 'd dictionary = "(string \<times> 'd variant) list"

fun dict_set :: "'d dictionary \<Rightarrow> string \<Rightarrow> 'd variant \<Rightarrow> 'd dictionary" where
  "dict_set [] k v = [(k, v)]"
| "dict_set ((k', v') # kvs) k v =
     (if k' = k then (k, v) # kvs else (k', v') # dict_set kvs k v)"

text \<open>The enumeration \<^verbatim>\<open>ContextMenuIds\<close> of the header, as the integers it denotes.\<close>

definition CM_RENAME_EVENT :: int where
  "CM_RENAME_EVENT = 0"

definition CM_REMOVE_EVENT :: int where
  "CM_REMOVE_EVENT = 1"

subsection \<open>Collaborators\<close>

text \<open>
  The orchestration and the two library functions the panel calls are parameters of the
  model: \<open>'o\<close> is the state of the orchestration, \<open>'s\<close> a custom event (signal)
  resource and \<open>'d\<close> the dictionary built from a signal's method information. A
  \<^verbatim>\<open>Ref<OScriptSignal>\<close> is an \<open>'s option\<close>, valid iff it is not \<open>None\<close>. The
  queries read the orchestration; create, rename and remove return its new state.
  \<open>from_method\<close> is \<^verbatim>\<open>DictionaryUtils::from_method\<close> applied to
  \<^verbatim>\<open>get_method_info()\<close> of the signal.
\<close>

record ('o, 's, 'd) env =
  get_custom_event_names :: "'o \<Rightarrow> string list"
  get_custom_event :: "'o \<Rightarrow> string \<Rightarrow> 's option"
  find_custom_event :: "'o \<Rightarrow> string \<Rightarrow> 's option"
  create_custom_event :: "'o \<Rightarrow> string \<Rightarrow> 's option \<times> 'o"
  rename_custom_user_event :: "'o \<Rightarrow> string \<Rightarrow> string \<Rightarrow> bool \<times> 'o"
  remove_custom_event :: "'o \<Rightarrow> string \<Rightarrow> 'o"
  is_valid_identifier :: "string \<Rightarrow> bool"
  from_method :: "'s \<Rightarrow> 'd"

text \<open>
  The calls that leave the panel, as they are recorded. The call of the base class's
  \<^verbatim>\<open>update\<close> is recorded with the children of the root as the base class finds
  them when it is called.
\<close>

datatype 's call =
  Show_notification string
| Show_invalid_name string bool
| Edit_resource "'s option"
| Edit_selected_tree_item
| Confirm_removal "tree_item option"
| Accept_event
| Base_update "tree_item list"
| Create_custom_event string
| Rename_custom_user_event string string
| Remove_custom_event string

record ('o, 's) panel =
  orchestration :: 'o
  tree :: tree
  calls :: "'s call list"

definition record_call :: "'s call \<Rightarrow> ('o, 's) panel \<Rightarrow> ('o, 's) panel" where
  "record_call c p = p\<lparr>calls := calls p @ [c]\<rparr>"

subsection \<open>Base class and tree widget\<close>

text \<open>
  Modelled from the spec: \<^verbatim>\<open>_get_tree_item_name\<close> of the base class
  \<^verbatim>\<open>OrchestratorScriptComponentPanel\<close>, whose source is not part of the panel. An
  item stands for the event it was created for. The function is defined on items; where
  the panel passes a pointer that may be null, the handler's model says so.
\<close>

definition get_tree_item_name :: "tree_item \<Rightarrow> string" where
  "get_tree_item_name item = item_name item"

text \<open>
  Modelled from the spec: \<^verbatim>\<open>_clear_tree\<close> of the base class, which the spec
  describes as clearing the tree: afterwards the root has no child and nothing is
  selected.
\<close>

definition clear_tree :: "('o, 's) panel \<Rightarrow> ('o, 's) panel" where
  "clear_tree p =
     p\<lparr>tree := \<lparr>tree_root = TreeItem [] [] [] True [], tree_selected = None\<rparr>\<rparr>"

text \<open>
  \<^verbatim>\<open>create_child\<close> of the tree widget makes a fresh item (no text, selectable, no
  children) the last child of its parent; \<open>add_child\<close> attaches an item to the root,
  the only parent the panel uses.
\<close>

definition new_item :: tree_item where
  "new_item = TreeItem [] [] [] True []"

definition set_text :: "string \<Rightarrow> tree_item \<Rightarrow> tree_item" where
  "set_text s item =
     TreeItem s (item_name item) (item_icon item) (item_selectable item) (item_children item)"

definition set_selectable :: "bool \<Rightarrow> tree_item \<Rightarrow> tree_item" where
  "set_selectable b item =
     TreeItem (item_text item) (item_name item) (item_icon item) b (item_children item)"

definition add_child :: "tree_item \<Rightarrow> ('o, 's) panel \<Rightarrow> ('o, 's) panel" where
  "add_child item p =
     p\<lparr>tree := (tree p)\<lparr>tree_root :=
        TreeItem (item_text (tree_root (tree p))) (item_name (tree_root (tree p)))
          (item_icon (tree_root (tree p))) (item_selectable (tree_root (tree p)))
          (item_children (tree_root (tree p)) @ [item])\<rparr>\<rparr>"

definition get_child_count :: "tree_item \<Rightarrow> nat" where
  "get_child_count item = length (item_children item)"

text \<open>
  Modelled from the spec: \<^verbatim>\<open>_create_item(parent, text, item_name, icon_name)\<close> of
  the base class, called with the root as parent: it inserts one leaf with the given
  label, name and icon tag.
\<close>

definition create_item :: "string \<Rightarrow> string \<Rightarrow> string \<Rightarrow> ('o, 's) panel \<Rightarrow> ('o, 's) panel" where
  "create_item text_label name icon p = add_child (TreeItem text_label name icon True []) p"

text \<open>
  Modelled from the spec: \<^verbatim>\<open>OrchestratorScriptComponentPanel::update\<close>, the generic
  bookkeeping of the base class; it is recorded as a call, together with the children
  the root has at that moment, and leaves the items as they are.
\<close>

definition base_update :: "('o, 's) panel \<Rightarrow> ('o, 's) panel" where
  "base_update p = record_call (Base_update (item_children (tree_root (tree p)))) p"

fun is_base_update :: "'s call \<Rightarrow> bool" where
  "is_base_update (Base_update items) = True"
| "is_base_update _ = False"

text \<open>The remaining calls into the base class and the editor, recorded with their arguments.\<close>

definition show_notification :: "string \<Rightarrow> ('o, 's) panel \<Rightarrow> ('o, 's) panel" where
  "show_notification msg p = record_call (Show_notification msg) p"

definition show_invalid_name :: "string \<Rightarrow> bool \<Rightarrow> ('o, 's) panel \<Rightarrow> ('o, 's) panel" where
  "show_invalid_name type_name supports_friendly p =
     record_call (Show_invalid_name type_name supports_friendly) p"

definition edit_resource :: "'s option \<Rightarrow> ('o, 's) panel \<Rightarrow> ('o, 's) panel" where
  "edit_resource r p = record_call (Edit_resource r) p"

definition edit_selected_tree_item :: "('o, 's) panel \<Rightarrow> ('o, 's) panel" where
  "edit_selected_tree_item p = record_call Edit_selected_tree_item p"

definition confirm_removal :: "tree_item option \<Rightarrow> ('o, 's) panel \<Rightarrow> ('o, 's) panel" where
  "confirm_removal item p = record_call (Confirm_removal item) p"

definition accept_event :: "('o, 's) panel \<Rightarrow> ('o, 's) panel" where
  "accept_event p = record_call Accept_event p"

subsection \<open>The panel's overrides\<close>

definition get_existing_names :: "('o, 's, 'd) env \<Rightarrow> ('o, 's) panel \<Rightarrow> string list" where
  "get_existing_names e p = get_custom_event_names e (orchestration p)"

definition handle_context_menu :: "int \<Rightarrow> ('o, 's) panel \<Rightarrow> ('o, 's) panel" where
  "handle_context_menu p_id p =
     (if p_id = CM_RENAME_EVENT then edit_selected_tree_item p
      else if p_id = CM_REMOVE_EVENT then confirm_removal (tree_selected (tree p)) p
      else p)"

definition handle_add_new_item ::
  "('o, 's, 'd) env \<Rightarrow> string \<Rightarrow> ('o, 's) panel \<Rightarrow> bool \<times> ('o, 's) panel" where
  "handle_add_new_item e p_name p =
     (case create_custom_event e (orchestration p) p_name of
        (r, orch) \<Rightarrow>
          (r \<noteq> None, record_call (Create_custom_event p_name) (p\<lparr>orchestration := orch\<rparr>)))"

text \<open>
  Selection, activation and removal pass the item to \<^verbatim>\<open>_get_tree_item_name\<close>
  without a null check; the result \<open>None\<close> stands for the call on a null item.
\<close>

definition handle_item_activated ::
  "('o, 's, 'd) env \<Rightarrow> tree_item option \<Rightarrow> ('o, 's) panel \<Rightarrow> ('o, 's) panel option" where
  "handle_item_activated e p_item p =
     (case p_item of
        None \<Rightarrow> None
      | Some item \<Rightarrow>
          Some (edit_resource (get_custom_event e (orchestration p) (get_tree_item_name item)) p))"

definition handle_item_selected ::
  "('o, 's, 'd) env \<Rightarrow> ('o, 's) panel \<Rightarrow> ('o, 's) panel option" where
  "handle_item_selected e p =
     (case tree_selected (tree p) of
        None \<Rightarrow> None
      | Some item \<Rightarrow>
          Some (edit_resource (get_custom_event e (orchestration p) (get_tree_item_name item)) p))"

definition handle_item_renamed ::
  "('o, 's, 'd) env \<Rightarrow> string \<Rightarrow> string \<Rightarrow> ('o, 's) panel \<Rightarrow> bool \<times> ('o, 's) panel" where
  "handle_item_renamed e p_old_name p_new_name p =
     (if p_new_name \<in> set (get_existing_names e p) then
        (False,
         show_notification
           (''An event with the name '' @ [CHR 0x27] @ p_new_name @ [CHR 0x27] @ '' already exists.'') p)
      else if \<not> is_valid_identifier e p_new_name then
        (False, show_invalid_name ''event'' False p)
      else
        (case rename_custom_user_event e (orchestration p) p_old_name p_new_name of
           (r, orch) \<Rightarrow>
             (r, record_call (Rename_custom_user_event p_old_name p_new_name)
                   (p\<lparr>orchestration := orch\<rparr>))))"

definition handle_remove ::
  "('o, 's, 'd) env \<Rightarrow> tree_item option \<Rightarrow> ('o, 's) panel \<Rightarrow> ('o, 's) panel option" where
  "handle_remove e p_item p =
     (case p_item of
        None \<Rightarrow> None
      | Some item \<Rightarrow>
          Some (record_call (Remove_custom_event (get_tree_item_name item))
                  (p\<lparr>orchestration :=
                       remove_custom_event e (orchestration p) (get_tree_item_name item)\<rparr>)))"

text \<open>The position argument of the drag handler is not read and is left out.\<close>

definition handle_drag_data :: "('o, 's, 'd) env \<Rightarrow> ('o, 's) panel \<Rightarrow> 'd dictionary" where
  "handle_drag_data e p =
     (let data = []
      in case tree_selected (tree p) of
           None \<Rightarrow> data
         | Some selected \<Rightarrow>
             (case find_custom_event e (orchestration p) (get_tree_item_name selected) of
                None \<Rightarrow> data
              | Some signal \<Rightarrow>
                  dict_set (dict_set data ''type'' (VString ''signal''))
                    ''signals'' (VDictionary (from_method e signal))))"

text \<open>The item argument of the input handler is not read and is left out.\<close>

definition handle_tree_gui_input :: "input_event option \<Rightarrow> ('o, 's) panel \<Rightarrow> ('o, 's) panel" where
  "handle_tree_gui_input p_event p =
     (case p_event of
        Some (InputEventKey pressed echo keycode) \<Rightarrow>
          (if pressed \<and> \<not> echo then
             (if keycode = KEY_F2 then accept_event (handle_context_menu CM_RENAME_EVENT p)
              else if keycode = KEY_DELETE then accept_event (handle_context_menu CM_REMOVE_EVENT p)
              else p)
           else p)
      | _ \<Rightarrow> p)"

text \<open>
  \<^verbatim>\<open>update\<close>: the loop over the sorted names is a left fold. \<^verbatim>\<open>sort()\<close> of
  a \<^verbatim>\<open>PackedStringArray\<close> orders strings character by character by their codes, a
  proper prefix first, which is the order of \<open>string\<close> here. The result of
  \<^verbatim>\<open>get_custom_event\<close> inside the loop is not used. The placeholder is built and
  attached to the root, and the function returns before the base class is called.
\<close>

definition update :: "('o, 's, 'd) env \<Rightarrow> ('o, 's) panel \<Rightarrow> ('o, 's) panel" where
  "update e p =
     (let p1 = clear_tree p;
          signal_names = get_custom_event_names e (orchestration p1);
          p2 = (if signal_names \<noteq> [] then
                  foldl (\<lambda>q signal_name. create_item signal_name signal_name ''MemberSignal'' q)
                    p1 (sort signal_names)
                else p1)
      in if get_child_count (tree_root (tree p2)) = 0 then
           add_child (set_selectable False (set_text ''No signals defined'' new_item)) p2
         else base_update p2)"

subsection \<open>A list-backed orchestration\<close>

text \<open>
  Modelled from the spec: the \<^verbatim>\<open>Orchestration\<close>, whose source is not part of the
  panel. It owns zero or more custom events, each identified by a unique name and a
  method signature; here a signal is its name with the names of its arguments, and the
  orchestration is the list of its signals. Creating an event under a name in use, and
  renaming an absent event or to a name in use, fail and change nothing. The general
  theorems below hold for every orchestration; this one supplies concrete inputs.
\<close>

datatype oscript_signal =
  OScriptSignal (signal_name: string) (signal_arguments: "string list")

type_synonym orchestration_list = "oscript_signal list"

definition list_get_custom_event_names :: "orchestration_list \<Rightarrow> string list" where
  "list_get_custom_event_names orch = map signal_name orch"

definition list_find_custom_event :: "orchestration_list \<Rightarrow> string \<Rightarrow> oscript_signal option" where
  "list_find_custom_event orch name = find (\<lambda>s. signal_name s = name) orch"

definition list_create_custom_event ::
  "orchestration_list \<Rightarrow> string \<Rightarrow> oscript_signal option \<times> orchestration_list" where
  "list_create_custom_event orch name =
     (if name \<in> set (list_get_custom_event_names orch) then (None, orch)
      else (Some (OScriptSignal name []), orch @ [OScriptSignal name []]))"

definition list_rename_custom_user_event ::
  "orchestration_list \<Rightarrow> string \<Rightarrow> string \<Rightarrow> bool \<times> orchestration_list" where
  "list_rename_custom_user_event orch old_name new_name =
     (if old_name \<notin> set (list_get_custom_event_names orch) then (False, orch)
      else if new_name \<in> set (list_get_custom_event_names orch) then (False, orch)
      else (True,
            map (\<lambda>s. if signal_name s = old_name
                      then OScriptSignal new_name (signal_arguments s) else s) orch))"

definition list_remove_custom_event :: "orchestration_list \<Rightarrow> string \<Rightarrow> orchestration_list" where
  "list_remove_custom_event orch name = filter (\<lambda>s. signal_name s \<noteq> name) orch"

text \<open>
  The identifiers of the host's \<^verbatim>\<open>String::is_valid_identifier\<close> in the ASCII range:
  not empty, made of letters, digits and the underscore, and not starting with a digit.
\<close>

definition is_digit :: "char \<Rightarrow> bool" where
  "is_digit c = (c \<in> set ''0123456789'')"

definition is_identifier_char :: "char \<Rightarrow> bool" where
  "is_identifier_char c =
     (is_digit c \<or> c \<in> set ''abcdefghijklmnopqrstuvwxyzABCDEFGHIJKLMNOPQRSTUVWXYZ_'')"

fun ascii_identifier :: "string \<Rightarrow> bool" where
  "ascii_identifier [] = False"
| "ascii_identifier (c # cs) = (\<not> is_digit c \<and> list_all is_identifier_char (c # cs))"

definition list_env :: "(orchestration_list, oscript_signal, oscript_signal) env" where
  "list_env =
     \<lparr>get_custom_event_names = list_get_custom_event_names,
      get_custom_event = list_find_custom_event,
      find_custom_event = list_find_custom_event,
      create_custom_event = list_create_custom_event,
      rename_custom_user_event = list_rename_custom_user_event,
      remove_custom_event = list_remove_custom_event,
      is_valid_identifier = ascii_identifier,
      from_method = (\<lambda>s. s)\<rparr>"

text \<open>
  Two panel states on it: one whose orchestration owns the events \<open>zeta\<close> and
  \<open>alpha\<close>, with a tree that shows a stale item \<open>old\<close> and has \<open>zeta\<close> selected,
  and one whose orchestration owns no event.
\<close>

definition two_events_panel :: "(orchestration_list, oscript_signal) panel" where
  "two_events_panel =
     \<lparr>orchestration = [OScriptSignal ''zeta'' [''amount''], OScriptSignal ''alpha'' []],
      tree = \<lparr>tree_root = TreeItem [] [] [] True [TreeItem ''old'' ''old'' ''MemberSignal'' True []],
              tree_selected = Some (TreeItem ''zeta'' ''zeta'' ''MemberSignal'' True [])\<rparr>,
      calls = []\<rparr>"

definition no_events_panel :: "(orchestration_list, oscript_signal) panel" where
  "no_events_panel =
     \<lparr>orchestration = [],
      tree = \<lparr>tree_root = TreeItem [] [] [] True [TreeItem ''old'' ''old'' ''MemberSignal'' True []],
              tree_selected = None\<rparr>,
      calls = []\<rparr>"

section \<open>Properties\<close>

subsection \<open>Auxiliary facts about the tree\<close>

lemma tree_add_child:
  "tree (add_child item p) =
     (tree p)\<lparr>tree_root :=
        TreeItem (item_text (tree_root (tree p))) (item_name (tree_root (tree p)))
          (item_icon (tree_root (tree p))) (item_selectable (tree_root (tree p)))
          (item_children (tree_root (tree p)) @ [item])\<rparr>"
  by (simp add: add_child_def)

lemma children_add_child:
  "item_children (tree_root (tree (add_child item p))) =
     item_children (tree_root (tree p)) @ [item]"
  by (simp add: add_child_def)

lemma add_child_rest:
  "orchestration (add_child item p) = orchestration p"
  "calls (add_child item p) = calls p"
  "tree_selected (tree (add_child item p)) = tree_selected (tree p)"
  by (simp_all add: add_child_def)

lemma children_create_item:
  "item_children (tree_root (tree (create_item label name icon p))) =
     item_children (tree_root (tree p)) @ [TreeItem label name icon True []]"
  by (simp add: create_item_def children_add_child)

lemma create_item_rest:
  "orchestration (create_item label name icon p) = orchestration p"
  "calls (create_item label name icon p) = calls p"
  "tree_selected (tree (create_item label name icon p)) = tree_selected (tree p)"
  by (simp_all add: create_item_def add_child_rest)

lemma populate_children:
  "item_children (tree_root (tree
       (foldl (\<lambda>q n. create_item n n icon q) p names))) =
     item_children (tree_root (tree p)) @ map (\<lambda>n. TreeItem n n icon True []) names"
proof (induction names arbitrary: p)
  case Nil
  show ?case by simp
next
  case (Cons n names)
  show ?case
    by (simp add: Cons.IH children_create_item)
qed

lemma populate_rest:
  "orchestration (foldl (\<lambda>q n. create_item n n icon q) p names) = orchestration p"
  "calls (foldl (\<lambda>q n. create_item n n icon q) p names) = calls p"
  "tree_selected (tree (foldl (\<lambda>q n. create_item n n icon q) p names)) = tree_selected (tree p)"
  by (induction names arbitrary: p) (simp_all add: create_item_rest)

lemma update_no_names:
  assumes "get_custom_event_names e (orchestration p) = []"
  shows "update e p =
     p\<lparr>tree := \<lparr>tree_root = TreeItem [] [] [] True [TreeItem ''No signals defined'' [] [] False []],
                 tree_selected = None\<rparr>\<rparr>"
  using assms
  by (simp add: update_def clear_tree_def get_child_count_def add_child_def
      set_selectable_def set_text_def new_item_def)

lemma sort_eq_Nil_iff: "sort (xs :: string list) = [] \<longleftrightarrow> xs = []"
  by (metis length_sort length_0_conv)

lemma update_some_names_children:
  assumes "get_custom_event_names e (orchestration p) \<noteq> []"
  shows "item_children (tree_root (tree (update e p))) =
     map (\<lambda>n. TreeItem n n ''MemberSignal'' True [])
       (sort (get_custom_event_names e (orchestration p)))"
  using assms
  by (simp add: update_def Let_def populate_children get_child_count_def base_update_def
      record_call_def clear_tree_def sort_eq_Nil_iff)

lemma update_some_names_calls:
  assumes "get_custom_event_names e (orchestration p) \<noteq> []"
  shows "calls (update e p) =
     calls p @ [Base_update (map (\<lambda>n. TreeItem n n ''MemberSignal'' True [])
       (sort (get_custom_event_names e (orchestration p))))]"
  using assms
  by (simp add: update_def Let_def populate_children populate_rest get_child_count_def
      base_update_def record_call_def clear_tree_def sort_eq_Nil_iff)

lemma populate_tree:
  "tree (foldl (\<lambda>q n. create_item n n icon q) p names) =
     \<lparr>tree_root =
        TreeItem (item_text (tree_root (tree p))) (item_name (tree_root (tree p)))
          (item_icon (tree_root (tree p))) (item_selectable (tree_root (tree p)))
          (item_children (tree_root (tree p)) @ map (\<lambda>n. TreeItem n n icon True []) names),
      tree_selected = tree_selected (tree p)\<rparr>"
proof (induction names arbitrary: p)
  case Nil
  show ?case by simp
next
  case (Cons n names)
  show ?case
    by (simp add: Cons.IH) (simp add: create_item_def add_child_def)
qed

lemma update_some_names_tree:
  assumes "get_custom_event_names e (orchestration p) \<noteq> []"
  shows "tree (update e p) =
     \<lparr>tree_root = TreeItem [] [] [] True
        (map (\<lambda>n. TreeItem n n ''MemberSignal'' True [])
          (sort (get_custom_event_names e (orchestration p)))),
      tree_selected = None\<rparr>"
  using assms
  by (simp add: update_def Let_def populate_tree populate_rest get_child_count_def
      base_update_def record_call_def clear_tree_def sort_eq_Nil_iff)

lemma update_tree_independent:
  "tree (update e (p\<lparr>tree := t\<rparr>)) = tree (update e p)"
  by (simp add: update_def clear_tree_def)

lemma rename_existing:
  assumes "p_new_name \<in> set (get_custom_event_names e (orchestration p))"
  shows "handle_item_renamed e p_old_name p_new_name p =
     (False, p\<lparr>calls := calls p @
        [Show_notification
          (''An event with the name '' @ [CHR 0x27] @ p_new_name @ [CHR 0x27] @ '' already exists.'')]\<rparr>)"
  using assms
  by (simp add: handle_item_renamed_def get_existing_names_def show_notification_def
      record_call_def)

subsection \<open>Renaming\<close>

text \<open>
  C1. When the proposed new name is among the existing names, the rename handler returns
  false and records the notification that an event with that name already exists. It
  records no other call, so the orchestration's rename operation is not invoked, and the
  orchestration and the tree are as before.
\<close>

theorem rename_to_existing_name_rejected:
  assumes "p_new_name \<in> set (get_existing_names e p)"
  shows "handle_item_renamed e p_old_name p_new_name p =
     (False, p\<lparr>calls := calls p @
        [Show_notification
          (''An event with the name '' @ [CHR 0x27] @ p_new_name @ [CHR 0x27] @ '' already exists.'')]\<rparr>)
     \<and> orchestration (snd (handle_item_renamed e p_old_name p_new_name p)) = orchestration p"
  using assms by (simp add: get_existing_names_def rename_existing)

theorem rename_to_existing_name_rejected_witness:
  "''alpha'' \<in> set (get_existing_names list_env two_events_panel)
   \<and> fst (handle_item_renamed list_env ''zeta'' ''alpha'' two_events_panel) = False
   \<and> calls (snd (handle_item_renamed list_env ''zeta'' ''alpha'' two_events_panel)) =
       [Show_notification (''An event with the name '' @ [CHR 0x27] @ ''alpha'' @ [CHR 0x27] @ '' already exists.'')]
   \<and> orchestration (snd (handle_item_renamed list_env ''zeta'' ''alpha'' two_events_panel)) =
       [OScriptSignal ''zeta'' [''amount''], OScriptSignal ''alpha'' []]"
proof -
  have h: "''alpha'' \<in> set (get_existing_names list_env two_events_panel)"
    by (simp add: get_existing_names_def list_env_def list_get_custom_event_names_def
        two_events_panel_def)
  from rename_to_existing_name_rejected [OF h, of "''zeta''"] h show ?thesis
    by (simp add: two_events_panel_def)
qed

text \<open>
  C2. When the proposed new name is not a valid identifier and not an existing name, the
  rename handler returns false and records the invalid-name notification for an
  \<open>event\<close>, and nothing else: the orchestration's rename operation is not invoked.
  The existing-names check comes first: a name that is both an existing name and not a
  valid identifier gets the notification that the name already exists.
\<close>

theorem rename_to_invalid_identifier_rejected:
  assumes "\<not> is_valid_identifier e p_new_name"
  shows "(p_new_name \<notin> set (get_existing_names e p) \<longrightarrow>
            handle_item_renamed e p_old_name p_new_name p =
              (False, p\<lparr>calls := calls p @ [Show_invalid_name ''event'' False]\<rparr>))
     \<and> (p_new_name \<in> set (get_existing_names e p) \<longrightarrow>
            handle_item_renamed e p_old_name p_new_name p =
              (False, p\<lparr>calls := calls p @
                 [Show_notification
                   (''An event with the name '' @ [CHR 0x27] @ p_new_name @ [CHR 0x27] @ '' already exists.'')]\<rparr>))"
  using assms
  by (simp add: handle_item_renamed_def show_invalid_name_def show_notification_def
      record_call_def)

theorem rename_to_invalid_identifier_rejected_witness:
  "\<not> is_valid_identifier list_env ''9x''
   \<and> ''9x'' \<notin> set (get_existing_names list_env two_events_panel)
   \<and> handle_item_renamed list_env ''zeta'' ''9x'' two_events_panel =
       (False, two_events_panel\<lparr>calls := [Show_invalid_name ''event'' False]\<rparr>)
   \<and> \<not> is_valid_identifier list_env ''my event''
   \<and> ''my event'' \<in> set (get_existing_names list_env
         (two_events_panel\<lparr>orchestration := [OScriptSignal ''my event'' []]\<rparr>))
   \<and> fst (handle_item_renamed list_env ''zeta'' ''my event''
         (two_events_panel\<lparr>orchestration := [OScriptSignal ''my event'' []]\<rparr>)) = False
   \<and> calls (snd (handle_item_renamed list_env ''zeta'' ''my event''
         (two_events_panel\<lparr>orchestration := [OScriptSignal ''my event'' []]\<rparr>))) =
       [Show_notification (''An event with the name '' @ [CHR 0x27] @ ''my event'' @ [CHR 0x27] @ '' already exists.'')]"
proof -
  have h1: "\<not> is_valid_identifier list_env ''9x''"
    by (simp add: list_env_def is_digit_def)
  have h2: "''9x'' \<notin> set (get_existing_names list_env two_events_panel)"
    by (simp add: get_existing_names_def list_env_def list_get_custom_event_names_def
        two_events_panel_def)
  have h3: "\<not> is_valid_identifier list_env ''my event''"
    by (simp add: list_env_def is_digit_def is_identifier_char_def)
  have h4: "''my event'' \<in> set (get_existing_names list_env
         (two_events_panel\<lparr>orchestration := [OScriptSignal ''my event'' []]\<rparr>))"
    by (simp add: get_existing_names_def list_env_def list_get_custom_event_names_def)
  from rename_to_invalid_identifier_rejected [OF h1, of two_events_panel "''zeta''"]
    rename_to_invalid_identifier_rejected [OF h3,
      of "two_events_panel\<lparr>orchestration := [OScriptSignal ''my event'' []]\<rparr>" "''zeta''"]
    h1 h2 h3 h4
  show ?thesis
    by (simp add: two_events_panel_def)
qed

text \<open>
  C3. When the proposed new name is a valid identifier and not an existing name, the
  rename handler calls the orchestration's rename operation with the old and the new
  name, once, and returns the boolean of that call; the only call it records is that
  one, so no notification is shown.
\<close>

theorem rename_to_fresh_identifier_delegates:
  assumes "is_valid_identifier e p_new_name"
    and "p_new_name \<notin> set (get_existing_names e p)"
  shows "handle_item_renamed e p_old_name p_new_name p =
     (fst (rename_custom_user_event e (orchestration p) p_old_name p_new_name),
      p\<lparr>orchestration := snd (rename_custom_user_event e (orchestration p) p_old_name p_new_name),
        calls := calls p @ [Rename_custom_user_event p_old_name p_new_name]\<rparr>)"
  using assms
  by (simp add: handle_item_renamed_def record_call_def split: prod.split)

theorem rename_to_fresh_identifier_delegates_witness:
  "is_valid_identifier list_env ''beta''
   \<and> ''beta'' \<notin> set (get_existing_names list_env two_events_panel)
   \<and> handle_item_renamed list_env ''zeta'' ''beta'' two_events_panel =
       (True, two_events_panel
          \<lparr>orchestration := [OScriptSignal ''beta'' [''amount''], OScriptSignal ''alpha'' []],
           calls := [Rename_custom_user_event ''zeta'' ''beta'']\<rparr>)
   \<and> handle_item_renamed list_env ''ghost'' ''beta'' two_events_panel =
       (False, two_events_panel\<lparr>calls := [Rename_custom_user_event ''ghost'' ''beta'']\<rparr>)"
proof -
  have h1: "is_valid_identifier list_env ''beta''"
    by (simp add: list_env_def is_digit_def is_identifier_char_def)
  have h2: "''beta'' \<notin> set (get_existing_names list_env two_events_panel)"
    by (simp add: get_existing_names_def list_env_def list_get_custom_event_names_def
        two_events_panel_def)
  from rename_to_fresh_identifier_delegates [OF h1 h2, of "''zeta''"]
    rename_to_fresh_identifier_delegates [OF h1 h2, of "''ghost''"] h1 h2
  show ?thesis
    by (simp add: two_events_panel_def list_env_def list_rename_custom_user_event_def
        list_get_custom_event_names_def)
qed

text \<open>
  C10. Renaming an event of the orchestration to the name it already has is rejected:
  the existing names include the event's own name, so the handler returns false with
  the notification that the name already exists and does not invoke the orchestration's
  rename operation.
\<close>

theorem rename_to_own_name_rejected:
  assumes "p_old_name \<in> set (get_existing_names e p)"
  shows "handle_item_renamed e p_old_name p_old_name p =
     (False, p\<lparr>calls := calls p @
        [Show_notification
          (''An event with the name '' @ [CHR 0x27] @ p_old_name @ [CHR 0x27] @ '' already exists.'')]\<rparr>)"
  using assms by (simp add: get_existing_names_def rename_existing)

theorem rename_to_own_name_rejected_witness:
  "''zeta'' \<in> set (get_existing_names list_env two_events_panel)
   \<and> handle_item_renamed list_env ''zeta'' ''zeta'' two_events_panel =
       (False, two_events_panel\<lparr>calls :=
          [Show_notification (''An event with the name '' @ [CHR 0x27] @ ''zeta'' @ [CHR 0x27] @ '' already exists.'')]\<rparr>)"
proof -
  have h: "''zeta'' \<in> set (get_existing_names list_env two_events_panel)"
    by (simp add: get_existing_names_def list_env_def list_get_custom_event_names_def
        two_events_panel_def)
  from rename_to_own_name_rejected [OF h] h show ?thesis
    by (simp add: two_events_panel_def)
qed

subsection \<open>Adding, selecting and activating\<close>

text \<open>
  C8. The add handler calls the orchestration's \<open>create_custom_event\<close> with the given
  name, once, and returns true exactly when the reference it gets is valid.
\<close>

theorem add_new_item_valid_handle:
  "fst (handle_add_new_item e p_name p) =
       (fst (create_custom_event e (orchestration p) p_name) \<noteq> None)
   \<and> orchestration (snd (handle_add_new_item e p_name p)) =
       snd (create_custom_event e (orchestration p) p_name)
   \<and> calls (snd (handle_add_new_item e p_name p)) = calls p @ [Create_custom_event p_name]"
  by (simp add: handle_add_new_item_def record_call_def split: prod.split)

text \<open>
  C9. Selection and activation do the same: the selection handler is the activation
  handler applied to the selected item. For a selected item and an activated item of
  equal name, both fetch the orchestration's custom event of that name and open it in
  the inspector, and nothing else.
\<close>

theorem selection_and_activation_agree:
  assumes "tree_selected (tree p) = Some i"
    and "get_tree_item_name j = get_tree_item_name i"
  shows "handle_item_selected e p = handle_item_activated e (Some j) p
     \<and> handle_item_activated e (Some j) p =
         Some (p\<lparr>calls := calls p @
           [Edit_resource (get_custom_event e (orchestration p) (get_tree_item_name i))]\<rparr>)
     \<and> handle_item_selected e p = handle_item_activated e (tree_selected (tree p)) p"
  using assms
  by (simp add: handle_item_selected_def handle_item_activated_def edit_resource_def
      record_call_def)

theorem selection_and_activation_agree_witness:
  "tree_selected (tree two_events_panel) = Some (TreeItem ''zeta'' ''zeta'' ''MemberSignal'' True [])
   \<and> get_tree_item_name (TreeItem ''Zeta (signal)'' ''zeta'' [] False []) =
       get_tree_item_name (TreeItem ''zeta'' ''zeta'' ''MemberSignal'' True [])
   \<and> handle_item_selected list_env two_events_panel =
       handle_item_activated list_env (Some (TreeItem ''Zeta (signal)'' ''zeta'' [] False []))
         two_events_panel
   \<and> handle_item_selected list_env two_events_panel =
       Some (two_events_panel\<lparr>calls :=
         [Edit_resource (Some (OScriptSignal ''zeta'' [''amount'']))]\<rparr>)"
proof -
  have h1: "tree_selected (tree two_events_panel) =
      Some (TreeItem ''zeta'' ''zeta'' ''MemberSignal'' True [])"
    by (simp add: two_events_panel_def)
  have h2: "get_tree_item_name (TreeItem ''Zeta (signal)'' ''zeta'' [] False []) =
      get_tree_item_name (TreeItem ''zeta'' ''zeta'' ''MemberSignal'' True [])"
    by (simp add: get_tree_item_name_def)
  from selection_and_activation_agree [OF h1 h2, of list_env] h1 h2 show ?thesis
    by (simp add: two_events_panel_def list_env_def list_find_custom_event_def
        get_tree_item_name_def)
qed

subsection \<open>Drag data\<close>

text \<open>
  C5. The drag payload is empty when no item is selected, and when the selected item's
  name does not resolve through \<open>find_custom_event\<close> to a valid signal. When it does
  resolve, the payload maps \<open>type\<close> to the string \<open>signal\<close> and \<open>signals\<close> to the
  dictionary of the signal's method information, and has no other key.
\<close>

theorem drag_data_payload:
  "(tree_selected (tree p) = None \<longrightarrow> handle_drag_data e p = [])
   \<and> (tree_selected (tree p) = Some item
        \<and> find_custom_event e (orchestration p) (get_tree_item_name item) = None \<longrightarrow>
          handle_drag_data e p = [])
   \<and> (tree_selected (tree p) = Some item
        \<and> find_custom_event e (orchestration p) (get_tree_item_name item) = Some signal \<longrightarrow>
          map_of (handle_drag_data e p) ''type'' = Some (VString ''signal'')
          \<and> map_of (handle_drag_data e p) ''signals'' = Some (VDictionary (from_method e signal))
          \<and> map fst (handle_drag_data e p) = [''type'', ''signals''])"
  by (simp add: handle_drag_data_def)

theorem drag_data_payload_witness:
  "tree_selected (tree no_events_panel) = None
   \<and> handle_drag_data list_env no_events_panel = []
   \<and> tree_selected (tree (two_events_panel\<lparr>orchestration := []\<rparr>)) =
       Some (TreeItem ''zeta'' ''zeta'' ''MemberSignal'' True [])
   \<and> find_custom_event list_env (orchestration (two_events_panel\<lparr>orchestration := []\<rparr>))
       (get_tree_item_name (TreeItem ''zeta'' ''zeta'' ''MemberSignal'' True [])) = None
   \<and> handle_drag_data list_env (two_events_panel\<lparr>orchestration := []\<rparr>) = []
   \<and> tree_selected (tree two_events_panel) =
       Some (TreeItem ''zeta'' ''zeta'' ''MemberSignal'' True [])
   \<and> find_custom_event list_env (orchestration two_events_panel)
       (get_tree_item_name (TreeItem ''zeta'' ''zeta'' ''MemberSignal'' True [])) =
       Some (OScriptSignal ''zeta'' [''amount''])
   \<and> map_of (handle_drag_data list_env two_events_panel) ''type'' = Some (VString ''signal'')
   \<and> map_of (handle_drag_data list_env two_events_panel) ''signals'' =
       Some (VDictionary (OScriptSignal ''zeta'' [''amount'']))"
proof -
  have h1: "tree_selected (tree no_events_panel) = None"
    by (simp add: no_events_panel_def)
  have h2: "tree_selected (tree (two_events_panel\<lparr>orchestration := []\<rparr>)) =
       Some (TreeItem ''zeta'' ''zeta'' ''MemberSignal'' True [])"
    by (simp add: two_events_panel_def)
  have h3: "find_custom_event list_env (orchestration (two_events_panel\<lparr>orchestration := []\<rparr>))
       (get_tree_item_name (TreeItem ''zeta'' ''zeta'' ''MemberSignal'' True [])) = None"
    by (simp add: list_env_def list_find_custom_event_def)
  have h4: "tree_selected (tree two_events_panel) =
       Some (TreeItem ''zeta'' ''zeta'' ''MemberSignal'' True [])"
    by (simp add: two_events_panel_def)
  have h5: "find_custom_event list_env (orchestration two_events_panel)
       (get_tree_item_name (TreeItem ''zeta'' ''zeta'' ''MemberSignal'' True [])) =
       Some (OScriptSignal ''zeta'' [''amount''])"
    by (simp add: list_env_def list_find_custom_event_def two_events_panel_def
        get_tree_item_name_def)
  have f: "from_method list_env (OScriptSignal ''zeta'' [''amount'']) =
       OScriptSignal ''zeta'' [''amount'']"
    by (simp add: list_env_def)
  from drag_data_payload [where p = no_events_panel and e = list_env]
    drag_data_payload [where p = "two_events_panel\<lparr>orchestration := []\<rparr>"
      and item = "TreeItem ''zeta'' ''zeta'' ''MemberSignal'' True []" and e = list_env]
    drag_data_payload [where p = two_events_panel
      and item = "TreeItem ''zeta'' ''zeta'' ''MemberSignal'' True []" and e = list_env
      and signal = "OScriptSignal ''zeta'' [''amount'']"]
    h1 h2 h3 h4 h5 f
  show ?thesis
    by simp
qed

subsection \<open>Keyboard input\<close>

text \<open>
  C6. A key event that is pressed and not an echo starts the rename flow when its keycode
  is F2 and the remove-confirmation flow (on the selected item) when it is Delete, and
  the event is accepted after either. Every other event - an echo, a key release,
  another keycode, an event that is not a key event, a null reference - changes nothing:
  no flow is started and the event is not accepted.
\<close>

theorem tree_gui_input_shortcuts:
  "handle_tree_gui_input p_event p =
     (if p_event = Some (InputEventKey True False KEY_F2) then
        p\<lparr>calls := calls p @ [Edit_selected_tree_item, Accept_event]\<rparr>
      else if p_event = Some (InputEventKey True False KEY_DELETE) then
        p\<lparr>calls := calls p @ [Confirm_removal (tree_selected (tree p)), Accept_event]\<rparr>
      else p)"
proof (cases p_event)
  case None
  then show ?thesis by (simp add: handle_tree_gui_input_def)
next
  case (Some ev)
  show ?thesis
  proof (cases ev)
    case (InputEventKey pressed echo keycode)
    with Some show ?thesis
      by (cases keycode)
        (auto simp add: handle_tree_gui_input_def handle_context_menu_def accept_event_def
          edit_selected_tree_item_def confirm_removal_def record_call_def
          CM_RENAME_EVENT_def CM_REMOVE_EVENT_def)
  next
    case InputEventOther
    with Some show ?thesis by (simp add: handle_tree_gui_input_def)
  qed
qed

subsection \<open>Rebuilding the tree\<close>

text \<open>
  C4. After \<open>update\<close>: when the orchestration reports no custom event name, the root
  has exactly one child, with the text \<open>No signals defined\<close> and not selectable; when
  it reports N > 0 names, the root has exactly N children, all leaves, whose labels are
  those names in lexicographically sorted order. The tree that results does not depend
  on the tree before the call: it is cleared first and no stale item survives.
\<close>

theorem update_rebuilds_tree:
  "(get_custom_event_names e (orchestration p) = [] \<longrightarrow>
      map item_text (item_children (tree_root (tree (update e p)))) = [''No signals defined'']
      \<and> map item_selectable (item_children (tree_root (tree (update e p)))) = [False])
   \<and> (get_custom_event_names e (orchestration p) \<noteq> [] \<longrightarrow>
      length (item_children (tree_root (tree (update e p)))) =
        length (get_custom_event_names e (orchestration p))
      \<and> map item_text (item_children (tree_root (tree (update e p)))) =
        sort (get_custom_event_names e (orchestration p))
      \<and> sorted (map item_text (item_children (tree_root (tree (update e p)))))
      \<and> list_all (\<lambda>c. item_children c = []) (item_children (tree_root (tree (update e p)))))
   \<and> tree (update e (p\<lparr>tree := t\<rparr>)) = tree (update e p)"
proof (intro conjI impI)
  assume empty: "get_custom_event_names e (orchestration p) = []"
  show "map item_text (item_children (tree_root (tree (update e p)))) = [''No signals defined'']"
    by (simp add: update_no_names [OF empty])
  show "map item_selectable (item_children (tree_root (tree (update e p)))) = [False]"
    by (simp add: update_no_names [OF empty])
next
  assume some: "get_custom_event_names e (orchestration p) \<noteq> []"
  note ch = update_some_names_children [OF some]
  show "length (item_children (tree_root (tree (update e p)))) =
      length (get_custom_event_names e (orchestration p))"
    by (simp add: ch)
  show texts: "map item_text (item_children (tree_root (tree (update e p)))) =
      sort (get_custom_event_names e (orchestration p))"
    by (simp add: ch comp_def)
  show "sorted (map item_text (item_children (tree_root (tree (update e p)))))"
    by (simp add: texts)
  show "list_all (\<lambda>c. item_children c = []) (item_children (tree_root (tree (update e p))))"
    by (simp add: ch list_all_iff)
next
  show "tree (update e (p\<lparr>tree := t\<rparr>)) = tree (update e p)"
    by (rule update_tree_independent)
qed

theorem update_rebuilds_tree_witness:
  "get_custom_event_names list_env (orchestration no_events_panel) = []
   \<and> map item_text (item_children (tree_root (tree (update list_env no_events_panel)))) =
       [''No signals defined'']
   \<and> map item_selectable (item_children (tree_root (tree (update list_env no_events_panel)))) =
       [False]
   \<and> get_custom_event_names list_env (orchestration two_events_panel) = [''zeta'', ''alpha'']
   \<and> length (item_children (tree_root (tree (update list_env two_events_panel)))) = 2
   \<and> map item_text (item_children (tree_root (tree (update list_env two_events_panel)))) =
       [''alpha'', ''zeta'']"
proof -
  have h1: "get_custom_event_names list_env (orchestration no_events_panel) = []"
    by (simp add: list_env_def list_get_custom_event_names_def no_events_panel_def)
  have h2: "get_custom_event_names list_env (orchestration two_events_panel) =
      [''zeta'', ''alpha'']"
    by (simp add: list_env_def list_get_custom_event_names_def two_events_panel_def)
  have s: "sort [''zeta'', ''alpha''] = [''alpha'', ''zeta'']"
    by code_simp
  from update_rebuilds_tree [where e = list_env and p = no_events_panel]
    update_rebuilds_tree [where e = list_env and p = two_events_panel] h1 h2 s
  show ?thesis
    by simp
qed

text \<open>
  C7, as the code has it. When the orchestration reports at least one custom event name,
  \<open>update\<close> ends by calling the base class's \<open>update\<close>: that call is the only
  call it makes and the last thing it does, the base class finds the root with one leaf
  per name in sorted order, all items being populated before the call, and the tree
  \<open>update\<close> leaves is the one the base class was called on. When the orchestration
  reports no name, \<open>update\<close> inserts the placeholder and returns without calling the
  base class.
\<close>

theorem update_base_class_call:
  "calls (update e p) =
     (if get_custom_event_names e (orchestration p) = [] then calls p
      else calls p @
        [Base_update (map (\<lambda>n. TreeItem n n ''MemberSignal'' True [])
           (sort (get_custom_event_names e (orchestration p))))])
   \<and> tree (update e p) =
     \<lparr>tree_root = TreeItem [] [] [] True
        (if get_custom_event_names e (orchestration p) = []
         then [TreeItem ''No signals defined'' [] [] False []]
         else map (\<lambda>n. TreeItem n n ''MemberSignal'' True [])
                (sort (get_custom_event_names e (orchestration p)))),
      tree_selected = None\<rparr>"
proof (cases "get_custom_event_names e (orchestration p) = []")
  case True
  then show ?thesis by (simp add: update_no_names)
next
  case False
  then show ?thesis by (simp add: update_some_names_calls update_some_names_tree)
qed

theorem update_base_class_call_witness:
  "calls (update list_env two_events_panel) =
     [Base_update [TreeItem ''alpha'' ''alpha'' ''MemberSignal'' True [],
                   TreeItem ''zeta'' ''zeta'' ''MemberSignal'' True []]]
   \<and> item_children (tree_root (tree (update list_env two_events_panel))) =
     [TreeItem ''alpha'' ''alpha'' ''MemberSignal'' True [],
      TreeItem ''zeta'' ''zeta'' ''MemberSignal'' True []]
   \<and> calls (update list_env no_events_panel) = []
   \<and> item_children (tree_root (tree (update list_env no_events_panel))) =
     [TreeItem ''No signals defined'' [] [] False []]"
proof -
  have h1: "get_custom_event_names list_env (orchestration no_events_panel) = []"
    by (simp add: list_env_def list_get_custom_event_names_def no_events_panel_def)
  have h2: "get_custom_event_names list_env (orchestration two_events_panel) =
      [''zeta'', ''alpha'']"
    by (simp add: list_env_def list_get_custom_event_names_def two_events_panel_def)
  have s: "sort [''zeta'', ''alpha''] = [''alpha'', ''zeta'']"
    by code_simp
  have c1: "calls two_events_panel = []"
    by (simp add: two_events_panel_def)
  have c2: "calls no_events_panel = []"
    by (simp add: no_events_panel_def)
  from update_base_class_call [where e = list_env and p = two_events_panel]
    update_base_class_call [where e = list_env and p = no_events_panel] h1 h2 s c1 c2
  show ?thesis
    by simp
qed

text \<open>
  C7, as stated, fails: on an orchestration without custom events, \<open>update\<close> inserts
  the placeholder and makes no call of the base class's \<open>update\<close>.
\<close>

theorem update_base_class_call_counterexample:
  "\<not> list_ex is_base_update (calls (update list_env no_events_panel))
   \<and> item_children (tree_root (tree (update list_env no_events_panel))) =
       [TreeItem ''No signals defined'' [] [] False []]"
  by (simp add: update_def clear_tree_def list_env_def list_get_custom_event_names_def
      no_events_panel_def get_child_count_def add_child_def set_selectable_def
      set_text_def new_item_def)

end
